theory Spec2Isabelle
  imports Main "HOL-Library.Word"
begin

unbundle bit_operations_syntax

section \<open>Types of the GHOST interface used by \<open>GHOST_WindowWayland.cpp\<close>\<close>

text \<open>
  \<open>int32_t\<close>, \<open>int\<close>, \<open>GHOST_TInt32\<close> and \<open>GHOST_TUns32\<close> are all 32 bits wide; the
  conversions between them in the source (\<open>int32_t(width)\<close>, \<open>GHOST_TUns32(w->height)\<close>,
  \<open>int(width)\<close>) keep the bit pattern, so one word type carries them all. Pointers to
  objects of the compositor, of the decoration library and of the host are opaque
  handles.
\<close>

type_synonym int32_t = "32 word"
type_synonym GHOST_TInt32 = "32 word"
type_synonym GHOST_TUns32 = "32 word"
type_synonym GHOST_TUns64 = "64 word"
type_synonym handle = nat

datatype GHOST_TSuccess = GHOST_kFailure | GHOST_kSuccess

datatype GHOST_TWindowState =
    GHOST_kWindowStateNormal
  | GHOST_kWindowStateMaximized
  | GHOST_kWindowStateMinimized
  | GHOST_kWindowStateFullScreen
  | GHOST_kWindowStateEmbedded

datatype GHOST_TDrawingContextType =
    GHOST_kDrawingContextTypeNone
  | GHOST_kDrawingContextTypeOpenGL

datatype GHOST_TEventType =
    GHOST_kEventWindowClose
  | GHOST_kEventWindowActivate
  | GHOST_kEventWindowDeactivate
  | GHOST_kEventWindowSize

text \<open>\<open>GHOST_Event(time, type, window)\<close>.\<close>

record GHOST_Event =
  ev_time :: GHOST_TUns64
  ev_type :: GHOST_TEventType
  ev_window :: handle

text \<open>\<open>GHOST_Rect\<close>: left, top, right, bottom, as \<open>bounds.set(l, t, r, b)\<close> stores them.\<close>

record GHOST_Rect =
  m_l :: GHOST_TInt32
  m_t :: GHOST_TInt32
  m_r :: GHOST_TInt32
  m_b :: GHOST_TInt32

text \<open>
  The two context classes \<open>newDrawingContext\<close> constructs, with their constructor
  arguments: \<open>GHOST_ContextNone(stereoVisual)\<close> and \<open>GHOST_ContextEGL(stereoVisual,
  nativeWindow, nativeDisplay, contextProfileMask, major, minor, contextFlags,
  resetNotificationStrategy, api)\<close>.
\<close>

datatype GHOST_Context =
    GHOST_ContextNone bool
  | GHOST_ContextEGL bool handle handle "32 word" "32 word" "32 word" "32 word" "32 word" "32 word"

definition EGL_CONTEXT_OPENGL_CORE_PROFILE_BIT :: "32 word" where
  "EGL_CONTEXT_OPENGL_CORE_PROFILE_BIT = 0x00000001"

definition EGL_OPENGL_API :: "32 word" where
  "EGL_OPENGL_API = 0x30A2"

text \<open>\<open>enum libdecor_window_state\<close>, a bit set, with the values of \<open>libdecor.h\<close>.\<close>

definition LIBDECOR_WINDOW_STATE_NONE :: "32 word" where
  "LIBDECOR_WINDOW_STATE_NONE = 0"

definition LIBDECOR_WINDOW_STATE_ACTIVE :: "32 word" where
  "LIBDECOR_WINDOW_STATE_ACTIVE = push_bit 0 1"

definition LIBDECOR_WINDOW_STATE_MAXIMIZED :: "32 word" where
  "LIBDECOR_WINDOW_STATE_MAXIMIZED = push_bit 1 1"

definition LIBDECOR_WINDOW_STATE_FULLSCREEN :: "32 word" where
  "LIBDECOR_WINDOW_STATE_FULLSCREEN = push_bit 2 1"

text \<open>
  A configuration descriptor, seen through the two getters \<open>frame_configure\<close> calls on
  it: \<open>libdecor_configuration_get_content_size\<close> either fails (\<open>None\<close>) or stores a
  width and a height, \<open>libdecor_configuration_get_window_state\<close> either fails or stores
  a state bit set.
\<close>

record libdecor_configuration =
  cfg_content_size :: "(32 word \<times> 32 word) option"
  cfg_window_state :: "32 word option"

text \<open>The three notifications of \<open>libdecor_frame_iface\<close>.\<close>

datatype frame_event =
    Configure libdecor_configuration
  | Close
  | Commit

section \<open>Calls into the compositor, the decoration library and the host\<close>

text \<open>
  Every call the window makes on an external collaborator is recorded, in order, with its
  arguments. \<open>PushEvent\<close> is \<open>m_system->pushEvent\<close>, \<open>SetActiveWindow\<close> and
  \<open>SetWindowInactive\<close> are the window manager's, \<open>SwapBuffers\<close>,
  \<open>SetDrawingContextType\<close> and \<open>ReleaseNativeHandles\<close> are those of the base class
  \<open>GHOST_Window\<close>, \<open>New_context\<close> and \<open>InitializeDrawingContext\<close> are the construction
  and initialisation of a context, \<open>Delete_w\<close> is \<open>delete w\<close>.
\<close>

datatype call =
    Wl_egl_window_resize handle "32 word" "32 word" "32 word" "32 word"
  | Wl_compositor_create_region handle
  | Wl_region_add handle "32 word" "32 word" "32 word" "32 word"
  | Wl_surface_set_opaque_region handle handle
  | Wl_region_destroy handle
  | Wl_compositor_create_surface handle
  | Wl_egl_window_create handle "32 word" "32 word"
  | Wl_surface_set_user_data handle handle
  | Libdecor_decorate handle handle handle
  | Libdecor_frame_map handle
  | Libdecor_frame_set_parent handle handle
  | Wl_display_roundtrip handle
  | Libdecor_frame_set_app_id handle string
  | Libdecor_frame_set_title handle string
  | Libdecor_frame_unset_maximized handle
  | Libdecor_frame_unset_fullscreen handle
  | Libdecor_frame_set_maximized handle
  | Libdecor_frame_set_minimized handle
  | Libdecor_frame_set_fullscreen handle
  | Libdecor_frame_unref handle
  | Wl_egl_window_destroy handle
  | Wl_surface_destroy handle
  | Libdecor_state_new "32 word" "32 word"
  | Libdecor_frame_commit handle "32 word" "32 word" libdecor_configuration
  | Libdecor_state_free
  | PushEvent GHOST_Event
  | SetActiveWindow handle
  | SetWindowInactive handle
  | SwapBuffers handle
  | SetDrawingContextType handle GHOST_TDrawingContextType
  | ReleaseNativeHandles handle
  | New_context GHOST_Context
  | InitializeDrawingContext GHOST_Context
  | Delete_w handle
  | GHOST_PRINT string

text \<open>
  The host (\<open>m_system\<close>, its window manager and event queue, the context classes, the
  build configuration). None of its code is in this file, so what a call returns is a
  parameter: any function of the calls made so far.
\<close>

record host =
  host_getMilliSeconds :: "call list \<Rightarrow> GHOST_TUns64"
  host_pushEvent :: "GHOST_Event \<Rightarrow> call list \<Rightarrow> GHOST_TSuccess"
  host_setActiveWindow :: "handle \<Rightarrow> call list \<Rightarrow> GHOST_TSuccess"
  host_initializeDrawingContext :: "GHOST_Context \<Rightarrow> call list \<Rightarrow> GHOST_TSuccess"
  host_setDrawingContextType :: "GHOST_TDrawingContextType \<Rightarrow> call list \<Rightarrow> GHOST_TSuccess"
  host_new_handle :: "call list \<Rightarrow> handle"
  host_compositor :: handle
  host_decoration :: handle
  host_display :: handle
  GHOST_OPENGL_ALPHA :: bool
  GHOST_OPENGL_EGL_CONTEXT_FLAGS :: "32 word"
  GHOST_OPENGL_EGL_RESET_NOTIFICATION_STRATEGY :: "32 word"

section \<open>The window\<close>

text \<open>\<open>struct window_t\<close>; \<open>w_this\<close> is its member \<open>w\<close>, the pointer back to the window.\<close>

record window_t =
  w_this :: handle
  surface :: handle
  frame :: handle
  egl_window :: handle
  is_maximised :: bool
  is_fullscreen :: bool
  is_active :: bool
  is_dialog :: bool
  width :: int32_t
  height :: int32_t

text \<open>
  The members of \<open>GHOST_WindowWayland\<close> this file reads or writes: its own address,
  \<open>w\<close>, \<open>title\<close>, and \<open>m_wantStereoVisual\<close> of the base class.
\<close>

record GHOST_WindowWayland =
  this :: handle
  w :: window_t
  title :: string
  m_wantStereoVisual :: bool

text \<open>The state the functions run in: the window object and the calls made so far.\<close>

record world =
  win :: GHOST_WindowWayland
  calls :: "call list"

definition ext :: "call \<Rightarrow> world \<Rightarrow> world" where
  "ext c wld = wld\<lparr>calls := calls wld @ [c]\<rparr>"

definition upd_w :: "(window_t \<Rightarrow> window_t) \<Rightarrow> world \<Rightarrow> world" where
  "upd_w f wld = wld\<lparr>win := (win wld)\<lparr>w := f (w (win wld))\<rparr>\<rparr>"

text \<open>
  \<open>m_system->pushEvent(new GHOST_Event(m_system->getMilliSeconds(), type, this))\<close>, the
  tail of \<open>close\<close>, \<open>activate\<close>, \<open>deactivate\<close> and \<open>notify_size\<close>.
\<close>

definition system_pushEvent :: "host \<Rightarrow> GHOST_TEventType \<Rightarrow> world \<Rightarrow> GHOST_TSuccess \<times> world" where
  "system_pushEvent h ty wld =
     (let ev = \<lparr>ev_time = host_getMilliSeconds h (calls wld), ev_type = ty,
                ev_window = this (win wld)\<rparr>
      in (host_pushEvent h ev (calls wld), ext (PushEvent ev) wld))"

definition close :: "host \<Rightarrow> world \<Rightarrow> GHOST_TSuccess \<times> world" where
  "close h wld = system_pushEvent h GHOST_kEventWindowClose wld"

definition activate :: "host \<Rightarrow> world \<Rightarrow> GHOST_TSuccess \<times> world" where
  "activate h wld =
     (let r = host_setActiveWindow h (this (win wld)) (calls wld);
          wld1 = ext (SetActiveWindow (this (win wld))) wld
      in if r = GHOST_kFailure then (GHOST_kFailure, wld1)
         else system_pushEvent h GHOST_kEventWindowActivate wld1)"

definition deactivate :: "host \<Rightarrow> world \<Rightarrow> GHOST_TSuccess \<times> world" where
  "deactivate h wld =
     system_pushEvent h GHOST_kEventWindowDeactivate
       (ext (SetWindowInactive (this (win wld))) wld)"

definition setOpaque :: "host \<Rightarrow> world \<Rightarrow> world" where
  "setOpaque h wld =
     (let region = host_new_handle h (calls wld);
          wld1 = ext (Wl_compositor_create_region (host_compositor h)) wld;
          wld2 = ext (Wl_region_add region 0 0 (width (w (win wld))) (height (w (win wld)))) wld1;
          wld3 = ext (Wl_surface_set_opaque_region (surface (w (win wld))) region) wld2
      in ext (Wl_region_destroy region) wld3)"

definition notify_size :: "host \<Rightarrow> world \<Rightarrow> GHOST_TSuccess \<times> world" where
  "notify_size h wld =
     system_pushEvent h GHOST_kEventWindowSize
       (if GHOST_OPENGL_ALPHA h then setOpaque h wld else wld)"

subsection \<open>Wayland interface callbacks\<close>

definition frame_configure :: "host \<Rightarrow> handle \<Rightarrow> libdecor_configuration \<Rightarrow> world \<Rightarrow> world" where
  "frame_configure h frm configuration wld =
     (let sz = (case cfg_content_size configuration of
                  None \<Rightarrow> (width (w (win wld)), height (w (win wld)))
                | Some s \<Rightarrow> s);
          wd = fst sz;
          ht = snd sz;
          wld1 = upd_w (\<lambda>x. x\<lparr>width := wd, height := ht\<rparr>) wld;
          wld2 = ext (Wl_egl_window_resize (egl_window (w (win wld1)))
                        (width (w (win wld1))) (height (w (win wld1))) 0 0) wld1;
          wld3 = snd (notify_size h wld2);
          window_state = (case cfg_window_state configuration of
                            None \<Rightarrow> LIBDECOR_WINDOW_STATE_NONE
                          | Some s \<Rightarrow> s);
          wld4 = upd_w (\<lambda>x. x\<lparr>
                   is_maximised := (window_state AND LIBDECOR_WINDOW_STATE_MAXIMIZED \<noteq> 0),
                   is_fullscreen := (window_state AND LIBDECOR_WINDOW_STATE_FULLSCREEN \<noteq> 0),
                   is_active := (window_state AND LIBDECOR_WINDOW_STATE_ACTIVE \<noteq> 0)\<rparr>) wld3;
          wld5 = snd (if is_active (w (win wld4)) then activate h wld4 else deactivate h wld4);
          wld6 = ext (Libdecor_state_new wd ht) wld5;
          wld7 = ext (Libdecor_frame_commit frm wd ht configuration) wld6
      in ext Libdecor_state_free wld7)"

text \<open>
  The state of \<open>frame_configure\<close> when its lines 63 to 72 have run (the size adopted, the
  native window resized, \<open>notify_size\<close> called): the calls made so far at this point are
  those the window manager has seen when \<open>activate\<close> or \<open>deactivate\<close> is called, since
  the assignments of lines 74 to 79 call nothing.
\<close>

definition frame_configure_resized :: "host \<Rightarrow> libdecor_configuration \<Rightarrow> world \<Rightarrow> world" where
  "frame_configure_resized h configuration wld =
     (let sz = (case cfg_content_size configuration of
                  None \<Rightarrow> (width (w (win wld)), height (w (win wld)))
                | Some s \<Rightarrow> s);
          wd = fst sz;
          ht = snd sz;
          wld1 = upd_w (\<lambda>x. x\<lparr>width := wd, height := ht\<rparr>) wld;
          wld2 = ext (Wl_egl_window_resize (egl_window (w (win wld1)))
                        (width (w (win wld1))) (height (w (win wld1))) 0 0) wld1
      in snd (notify_size h wld2))"

definition frame_close :: "host \<Rightarrow> world \<Rightarrow> world" where
  "frame_close h wld = snd (close h wld)"

definition swapBuffers :: "world \<Rightarrow> world" where
  "swapBuffers wld = ext (SwapBuffers (this (win wld))) wld"

definition frame_commit :: "world \<Rightarrow> world" where
  "frame_commit wld = swapBuffers (swapBuffers wld)"

text \<open>
  The decoration library calls the registered callback for each notification, with the
  window's own frame and \<open>w\<close> as user data.
\<close>

fun dispatch :: "host \<Rightarrow> frame_event \<Rightarrow> world \<Rightarrow> world" where
  "dispatch h (Configure configuration) wld =
     frame_configure h (frame (w (win wld))) configuration wld"
| "dispatch h Close wld = frame_close h wld"
| "dispatch h Commit wld = frame_commit wld"

text \<open>
  \<open>wl_display_roundtrip\<close> blocks until the pending notifications are handled: the
  registered callbacks run inside it, one per pending notification.
\<close>

definition wl_display_roundtrip :: "host \<Rightarrow> frame_event list \<Rightarrow> world \<Rightarrow> world" where
  "wl_display_roundtrip h pending wld =
     foldl (\<lambda>s e. dispatch h e s) (ext (Wl_display_roundtrip (host_display h)) wld) pending"

subsection \<open>Ghost implementation\<close>

definition setTitle :: "string \<Rightarrow> world \<Rightarrow> world" where
  "setTitle t wld =
     (let wld1 = ext (Libdecor_frame_set_app_id (frame (w (win wld))) t) wld;
          wld2 = ext (Libdecor_frame_set_title (frame (w (win wld))) t) wld1
      in wld2\<lparr>win := (win wld2)\<lparr>title := t\<rparr>\<rparr>)"

definition getTitle :: "GHOST_WindowWayland \<Rightarrow> string" where
  "getTitle win0 = (if title win0 = [] then ''untitled'' else title win0)"

definition getClientBounds :: "GHOST_WindowWayland \<Rightarrow> GHOST_Rect" where
  "getClientBounds win0 =
     \<lparr>m_l = 0, m_t = 0, m_r = width (w win0), m_b = height (w win0)\<rparr>"

definition getWindowBounds :: "GHOST_WindowWayland \<Rightarrow> GHOST_Rect" where
  "getWindowBounds win0 = getClientBounds win0"

definition setClientSize :: "GHOST_TUns32 \<Rightarrow> GHOST_TUns32 \<Rightarrow> world \<Rightarrow> GHOST_TSuccess \<times> world" where
  "setClientSize width0 height0 wld =
     (GHOST_kSuccess,
      ext (Wl_egl_window_resize (egl_window (w (win wld))) width0 height0 0 0) wld)"

definition setClientWidth :: "GHOST_TUns32 \<Rightarrow> world \<Rightarrow> GHOST_TSuccess \<times> world" where
  "setClientWidth width0 wld = setClientSize width0 (height (w (win wld))) wld"

definition setClientHeight :: "GHOST_TUns32 \<Rightarrow> world \<Rightarrow> GHOST_TSuccess \<times> world" where
  "setClientHeight height0 wld = setClientSize (width (w (win wld))) height0 wld"

definition screenToClient :: "GHOST_TInt32 \<Rightarrow> GHOST_TInt32 \<Rightarrow> GHOST_TInt32 \<times> GHOST_TInt32" where
  "screenToClient inX inY = (inX, inY)"

definition clientToScreen :: "GHOST_TInt32 \<Rightarrow> GHOST_TInt32 \<Rightarrow> GHOST_TInt32 \<times> GHOST_TInt32" where
  "clientToScreen inX inY = (inX, inY)"

definition getState :: "GHOST_WindowWayland \<Rightarrow> GHOST_TWindowState" where
  "getState win0 =
     (if is_fullscreen (w win0) then GHOST_kWindowStateFullScreen
      else if is_maximised (w win0) then GHOST_kWindowStateMaximized
      else GHOST_kWindowStateNormal)"

fun setState :: "GHOST_TWindowState \<Rightarrow> world \<Rightarrow> GHOST_TSuccess \<times> world" where
  "setState GHOST_kWindowStateNormal wld =
     (GHOST_kSuccess,
      (case getState (win wld) of
         GHOST_kWindowStateMaximized \<Rightarrow> ext (Libdecor_frame_unset_maximized (frame (w (win wld)))) wld
       | GHOST_kWindowStateFullScreen \<Rightarrow> ext (Libdecor_frame_unset_fullscreen (frame (w (win wld)))) wld
       | _ \<Rightarrow> wld))"
| "setState GHOST_kWindowStateMaximized wld =
     (GHOST_kSuccess, ext (Libdecor_frame_set_maximized (frame (w (win wld)))) wld)"
| "setState GHOST_kWindowStateMinimized wld =
     (GHOST_kSuccess, ext (Libdecor_frame_set_minimized (frame (w (win wld)))) wld)"
| "setState GHOST_kWindowStateFullScreen wld =
     (GHOST_kSuccess, ext (Libdecor_frame_set_fullscreen (frame (w (win wld)))) wld)"
| "setState GHOST_kWindowStateEmbedded wld = (GHOST_kFailure, wld)"

definition isDialog :: "GHOST_WindowWayland \<Rightarrow> bool" where
  "isDialog win0 = is_dialog (w win0)"

text \<open>A null result is \<open>None\<close>.\<close>

definition newDrawingContext :: "host \<Rightarrow> GHOST_TDrawingContextType \<Rightarrow> world \<Rightarrow> GHOST_Context option \<times> world" where
  "newDrawingContext h ty wld =
     (let context = (case ty of
            GHOST_kDrawingContextTypeNone \<Rightarrow> GHOST_ContextNone (m_wantStereoVisual (win wld))
          | GHOST_kDrawingContextTypeOpenGL \<Rightarrow>
              GHOST_ContextEGL (m_wantStereoVisual (win wld))
                (egl_window (w (win wld))) (host_display h)
                EGL_CONTEXT_OPENGL_CORE_PROFILE_BIT 3 3
                (GHOST_OPENGL_EGL_CONTEXT_FLAGS h)
                (GHOST_OPENGL_EGL_RESET_NOTIFICATION_STRATEGY h)
                EGL_OPENGL_API);
          wld1 = ext (New_context context) wld;
          r = host_initializeDrawingContext h context (calls wld1);
          wld2 = ext (InitializeDrawingContext context) wld1
      in (if r = GHOST_kSuccess then Some context else None, wld2))"

text \<open>
  \<open>GHOST_Window::setDrawingContextType\<close> belongs to the base class: a call on the host.
\<close>

definition setDrawingContextType :: "host \<Rightarrow> GHOST_TDrawingContextType \<Rightarrow> world \<Rightarrow> GHOST_TSuccess \<times> world" where
  "setDrawingContextType h ty wld =
     (host_setDrawingContextType h ty (calls wld),
      ext (SetDrawingContextType (this (win wld)) ty) wld)"

text \<open>
  The constructor. \<open>new window_t\<close> initialises no member, so the fresh contents \<open>fresh\<close>
  of the allocation are a parameter, as is the address \<open>self\<close> of the object under
  construction. The three round trips run the callbacks on whatever the compositor has
  pending (\<open>p1\<close>, \<open>p2\<close>, \<open>p3\<close>). The window is built on top of the calls \<open>cs\<close> already
  made.
\<close>

definition GHOST_WindowWayland_new ::
  "host \<Rightarrow> handle \<Rightarrow> window_t \<Rightarrow> call list \<Rightarrow> frame_event list \<Rightarrow> frame_event list \<Rightarrow> frame_event list
   \<Rightarrow> string \<Rightarrow> GHOST_TInt32 \<Rightarrow> GHOST_TInt32 \<Rightarrow> GHOST_TUns32 \<Rightarrow> GHOST_TUns32 \<Rightarrow> GHOST_TWindowState
   \<Rightarrow> GHOST_WindowWayland option \<Rightarrow> GHOST_TDrawingContextType \<Rightarrow> bool \<Rightarrow> bool \<Rightarrow> bool \<Rightarrow> world" where
  "GHOST_WindowWayland_new h self fresh cs p1 p2 p3
       title0 left0 top0 width0 height0 state0 parentWindow ty is_dialog0 stereoVisual exclusive =
     (let wld0 = \<lparr>win = \<lparr>this = self,
                         w = fresh\<lparr>w_this := self, width := width0, height := height0,
                                   is_dialog := is_dialog0\<rparr>,
                         title = [], m_wantStereoVisual = stereoVisual\<rparr>,
                  calls = cs\<rparr>;
          sf = host_new_handle h (calls wld0);
          wld1 = upd_w (\<lambda>x. x\<lparr>surface := sf\<rparr>) (ext (Wl_compositor_create_surface (host_compositor h)) wld0);
          eg = host_new_handle h (calls wld1);
          wld2 = upd_w (\<lambda>x. x\<lparr>egl_window := eg\<rparr>) (ext (Wl_egl_window_create sf width0 height0) wld1);
          wld3 = ext (Wl_surface_set_user_data sf self) wld2;
          fr = host_new_handle h (calls wld3);
          wld4 = upd_w (\<lambda>x. x\<lparr>frame := fr\<rparr>) (ext (Libdecor_decorate (host_decoration h) sf self) wld3);
          wld5 = ext (Libdecor_frame_map fr) wld4;
          wld6 = (case parentWindow of
                    None \<Rightarrow> wld5
                  | Some p \<Rightarrow> ext (Libdecor_frame_set_parent fr (frame (w p))) wld5);
          wld7 = wl_display_roundtrip h p1 wld6;
          wld8 = wl_display_roundtrip h p2 wld7;
          wld9 = wl_display_roundtrip h p3 wld8;
          wld10 = (if GHOST_OPENGL_ALPHA h then setOpaque h wld9 else wld9);
          wld11 = setTitle title0 wld10;
          r = setDrawingContextType h ty wld11
      in if fst r = GHOST_kFailure
         then ext (GHOST_PRINT ''Failed to create EGL context'') (snd r)
         else snd r)"

text \<open>The destructor: the calls it makes, on top of those already made.\<close>

definition GHOST_WindowWayland_delete :: "world \<Rightarrow> call list" where
  "GHOST_WindowWayland_delete wld =
     calls wld @
       [ReleaseNativeHandles (this (win wld)),
        Libdecor_frame_unref (frame (w (win wld))),
        Wl_egl_window_destroy (egl_window (w (win wld))),
        Wl_surface_destroy (surface (w (win wld))),
        Delete_w (this (win wld))]"

text \<open>The events pushed to the host's queue by a sequence of calls, oldest first.\<close>

fun pushed :: "call list \<Rightarrow> GHOST_Event list" where
  "pushed [] = []"
| "pushed (PushEvent e # cs) = e # pushed cs"
| "pushed (_ # cs) = pushed cs"

section \<open>Example hosts, configurations and windows\<close>

text \<open>Whether a notification is a configuration that provides a content size.\<close>

fun carries_size :: "frame_event \<Rightarrow> bool" where
  "carries_size (Configure configuration) = (cfg_content_size configuration \<noteq> None)"
| "carries_size Close = False"
| "carries_size Commit = False"

text \<open>
  A host whose window manager knows the window and whose contexts initialise, and one
  whose window manager does not know the window (as while the window is under
  construction) and whose contexts fail to initialise.
\<close>

definition host_accepting :: host where
  "host_accepting =
     \<lparr>host_getMilliSeconds = (\<lambda>cs. of_nat (length cs)),
      host_pushEvent = (\<lambda>e cs. GHOST_kSuccess),
      host_setActiveWindow = (\<lambda>x cs. GHOST_kSuccess),
      host_initializeDrawingContext = (\<lambda>c cs. GHOST_kSuccess),
      host_setDrawingContextType = (\<lambda>t cs. GHOST_kSuccess),
      host_new_handle = (\<lambda>cs. 20 + length cs),
      host_compositor = 1,
      host_decoration = 2,
      host_display = 3,
      GHOST_OPENGL_ALPHA = False,
      GHOST_OPENGL_EGL_CONTEXT_FLAGS = 0,
      GHOST_OPENGL_EGL_RESET_NOTIFICATION_STRATEGY = 0\<rparr>"

definition host_rejecting :: host where
  "host_rejecting =
     host_accepting\<lparr>host_setActiveWindow := (\<lambda>x cs. GHOST_kFailure),
                    host_initializeDrawingContext := (\<lambda>c cs. GHOST_kFailure)\<rparr>"

text \<open>
  A host whose window manager knows a window only once its construction is over, that is
  once the constructor's last call on the host, \<open>setDrawingContextType\<close>, has been made.
\<close>

definition host_registering :: host where
  "host_registering =
     host_accepting\<lparr>host_setActiveWindow :=
       (\<lambda>x cs. if SetDrawingContextType x GHOST_kDrawingContextTypeOpenGL \<in> set cs
                then GHOST_kSuccess else GHOST_kFailure)\<rparr>"

definition fresh_window_t :: window_t where
  "fresh_window_t =
     \<lparr>w_this = 0, surface = 0, frame = 0, egl_window = 0, is_maximised = False,
      is_fullscreen = False, is_active = False, is_dialog = False, width = 0, height = 0\<rparr>"

definition cfg_active_no_size :: libdecor_configuration where
  "cfg_active_no_size =
     \<lparr>cfg_content_size = None, cfg_window_state = Some LIBDECOR_WINDOW_STATE_ACTIVE\<rparr>"

definition cfg_fullscreen_maximized :: libdecor_configuration where
  "cfg_fullscreen_maximized =
     \<lparr>cfg_content_size = Some (1920, 1080),
      cfg_window_state =
        Some (LIBDECOR_WINDOW_STATE_FULLSCREEN OR LIBDECOR_WINDOW_STATE_MAXIMIZED)\<rparr>"

text \<open>
  A window of 800 by 600 at address 7, built on a host with nothing pending during the
  round trips of its construction.
\<close>

definition window_800_600 :: "host \<Rightarrow> world" where
  "window_800_600 h =
     GHOST_WindowWayland_new h 7 fresh_window_t [] [] [] []
       ''Blender'' 0 0 800 600 GHOST_kWindowStateNormal None
       GHOST_kDrawingContextTypeOpenGL False False False"

text \<open>The same window after a configuration that sets both the fullscreen and the maximized bit.\<close>

definition window_fullscreen_maximized :: world where
  "window_fullscreen_maximized =
     dispatch host_accepting (Configure cfg_fullscreen_maximized) (window_800_600 host_accepting)"

section \<open>Basic facts about the state\<close>


lemma pushed_append [simp]: "pushed (xs @ ys) = pushed xs @ pushed ys"
  by (induction xs rule: pushed.induct) simp_all

lemma calls_ext [simp]: "calls (ext c wld) = calls wld @ [c]"
  by (simp add: ext_def)

lemma win_ext [simp]: "win (ext c wld) = win wld"
  by (simp add: ext_def)

lemma calls_upd_w [simp]: "calls (upd_w f wld) = calls wld"
  by (simp add: upd_w_def)

lemma w_upd_w [simp]: "w (win (upd_w f wld)) = f (w (win wld))"
  by (simp add: upd_w_def)

lemma this_upd_w [simp]: "this (win (upd_w f wld)) = this (win wld)"
  by (simp add: upd_w_def)

lemma win_system_pushEvent [simp]: "win (snd (system_pushEvent h ty wld)) = win wld"
  by (simp add: system_pushEvent_def Let_def)

lemma calls_system_pushEvent:
  "calls (snd (system_pushEvent h ty wld)) =
     calls wld @ [PushEvent \<lparr>ev_time = host_getMilliSeconds h (calls wld), ev_type = ty,
                             ev_window = this (win wld)\<rparr>]"
  by (simp add: system_pushEvent_def Let_def)

lemma types_system_pushEvent [simp]:
  "map ev_type (pushed (calls (snd (system_pushEvent h ty wld)))) =
     map ev_type (pushed (calls wld)) @ [ty]"
  by (simp add: calls_system_pushEvent)

lemma win_activate [simp]: "win (snd (activate h wld)) = win wld"
  by (simp add: activate_def Let_def)

lemma win_deactivate [simp]: "win (snd (deactivate h wld)) = win wld"
  by (simp add: deactivate_def)

lemma win_setOpaque [simp]: "win (setOpaque h wld) = win wld"
  by (simp add: setOpaque_def Let_def)

lemma pushed_setOpaque [simp]: "pushed (calls (setOpaque h wld)) = pushed (calls wld)"
  by (simp add: setOpaque_def Let_def)

lemma win_notify_size [simp]: "win (snd (notify_size h wld)) = win wld"
  by (simp add: notify_size_def)

lemma types_notify_size [simp]:
  "map ev_type (pushed (calls (snd (notify_size h wld)))) =
     map ev_type (pushed (calls wld)) @ [GHOST_kEventWindowSize]"
  by (simp add: notify_size_def)

lemma win_close [simp]: "win (snd (close h wld)) = win wld"
  by (simp add: close_def)

lemma win_frame_commit [simp]: "win (frame_commit wld) = win wld"
  by (simp add: frame_commit_def swapBuffers_def)

lemma win_setDrawingContextType [simp]: "win (snd (setDrawingContextType h ty wld)) = win wld"
  by (simp add: setDrawingContextType_def)

lemma w_setTitle [simp]: "w (win (setTitle t wld)) = w (win wld)"
  by (simp add: setTitle_def Let_def)

lemma size_frame_configure:
  "width (w (win (frame_configure h frm c wld))) =
     (case cfg_content_size c of None \<Rightarrow> width (w (win wld)) | Some s \<Rightarrow> fst s)"
  "height (w (win (frame_configure h frm c wld))) =
     (case cfg_content_size c of None \<Rightarrow> height (w (win wld)) | Some s \<Rightarrow> snd s)"
  by (simp_all add: frame_configure_def Let_def split: option.splits)

lemma size_dispatch:
  "\<not> carries_size e \<Longrightarrow>
     width (w (win (dispatch h e wld))) = width (w (win wld)) \<and>
     height (w (win (dispatch h e wld))) = height (w (win wld))"
  by (cases e) (auto simp: size_frame_configure frame_close_def split: option.splits)

lemma size_foldl_dispatch:
  "\<forall>e\<in>set es. \<not> carries_size e \<Longrightarrow>
     width (w (win (foldl (\<lambda>s e. dispatch h e s) wld es))) = width (w (win wld)) \<and>
     height (w (win (foldl (\<lambda>s e. dispatch h e s) wld es))) = height (w (win wld))"
  by (induction es arbitrary: wld) (simp_all add: size_dispatch)

lemma size_wl_display_roundtrip:
  "\<forall>e\<in>set es. \<not> carries_size e \<Longrightarrow>
     width (w (win (wl_display_roundtrip h es wld))) = width (w (win wld)) \<and>
     height (w (win (wl_display_roundtrip h es wld))) = height (w (win wld))"
  by (simp add: wl_display_roundtrip_def size_foldl_dispatch)

lemma size_GHOST_WindowWayland_new:
  assumes "\<forall>e\<in>set p1. \<not> carries_size e" "\<forall>e\<in>set p2. \<not> carries_size e"
    "\<forall>e\<in>set p3. \<not> carries_size e"
  shows "width (w (win (GHOST_WindowWayland_new h self fresh cs p1 p2 p3 t l tp wd ht st
            parent ty dlg stereo excl))) = wd \<and>
         height (w (win (GHOST_WindowWayland_new h self fresh cs p1 p2 p3 t l tp wd ht st
            parent ty dlg stereo excl))) = ht"
  using assms
  by (simp add: GHOST_WindowWayland_new_def Let_def size_wl_display_roundtrip
      split: option.splits)

lemma fullscreen_bit_kept:
  "(s OR LIBDECOR_WINDOW_STATE_FULLSCREEN OR LIBDECOR_WINDOW_STATE_MAXIMIZED)
     AND LIBDECOR_WINDOW_STATE_FULLSCREEN \<noteq> 0"
proof -
  have "(s OR LIBDECOR_WINDOW_STATE_FULLSCREEN OR LIBDECOR_WINDOW_STATE_MAXIMIZED)
          AND LIBDECOR_WINDOW_STATE_FULLSCREEN = LIBDECOR_WINDOW_STATE_FULLSCREEN"
    by (simp add: bit_eq_iff bit_and_iff bit_or_iff) blast
  then show ?thesis
    by (simp add: LIBDECOR_WINDOW_STATE_FULLSCREEN_def)
qed

lemma flags_frame_configure:
  "is_fullscreen (w (win (frame_configure h frm c wld))) =
     ((case cfg_window_state c of None \<Rightarrow> LIBDECOR_WINDOW_STATE_NONE | Some s \<Rightarrow> s)
        AND LIBDECOR_WINDOW_STATE_FULLSCREEN \<noteq> 0)"
  "is_maximised (w (win (frame_configure h frm c wld))) =
     ((case cfg_window_state c of None \<Rightarrow> LIBDECOR_WINDOW_STATE_NONE | Some s \<Rightarrow> s)
        AND LIBDECOR_WINDOW_STATE_MAXIMIZED \<noteq> 0)"
  "is_active (w (win (frame_configure h frm c wld))) =
     ((case cfg_window_state c of None \<Rightarrow> LIBDECOR_WINDOW_STATE_NONE | Some s \<Rightarrow> s)
        AND LIBDECOR_WINDOW_STATE_ACTIVE \<noteq> 0)"
  by (simp_all add: frame_configure_def Let_def)

lemma types_activate:
  "map ev_type (pushed (calls (snd (activate h wld)))) =
     map ev_type (pushed (calls wld)) @
       (if host_setActiveWindow h (this (win wld)) (calls wld) = GHOST_kFailure then []
        else [GHOST_kEventWindowActivate])"
  by (simp add: activate_def Let_def)

lemma types_deactivate:
  "map ev_type (pushed (calls (snd (deactivate h wld)))) =
     map ev_type (pushed (calls wld)) @ [GHOST_kEventWindowDeactivate]"
  by (simp add: deactivate_def)

lemma types_frame_configure_inactive:
  assumes "(case cfg_window_state c of None \<Rightarrow> LIBDECOR_WINDOW_STATE_NONE | Some s \<Rightarrow> s)
             AND LIBDECOR_WINDOW_STATE_ACTIVE = 0"
  shows "map ev_type (pushed (calls (frame_configure h frm c wld))) =
           map ev_type (pushed (calls wld)) @
             [GHOST_kEventWindowSize, GHOST_kEventWindowDeactivate]"
  using assms by (simp add: frame_configure_def Let_def types_deactivate)

lemma types_frame_configure_active:
  assumes "(case cfg_window_state c of None \<Rightarrow> LIBDECOR_WINDOW_STATE_NONE | Some s \<Rightarrow> s)
             AND LIBDECOR_WINDOW_STATE_ACTIVE \<noteq> 0"
    and "\<forall>cs. host_setActiveWindow h (this (win wld)) cs = r"
  shows "map ev_type (pushed (calls (frame_configure h frm c wld))) =
           map ev_type (pushed (calls wld)) @
             (if r = GHOST_kFailure then [GHOST_kEventWindowSize]
              else [GHOST_kEventWindowSize, GHOST_kEventWindowActivate])"
  using assms by (simp add: frame_configure_def Let_def types_activate)

lemma this_frame_configure_resized [simp]:
  "this (win (frame_configure_resized h c wld)) = this (win wld)"
  by (simp add: frame_configure_resized_def Let_def)

lemma types_frame_configure_resized:
  "map ev_type (pushed (calls (frame_configure_resized h c wld))) =
     map ev_type (pushed (calls wld)) @ [GHOST_kEventWindowSize]"
  by (simp add: frame_configure_resized_def Let_def)

lemma prefix_frame_configure_resized:
  "\<exists>rest. calls (frame_configure_resized h c wld) = calls wld @ rest"
  by (simp add: frame_configure_resized_def Let_def notify_size_def setOpaque_def
      calls_system_pushEvent)

lemma calls_frame_configure_active:
  assumes "(case cfg_window_state c of None \<Rightarrow> LIBDECOR_WINDOW_STATE_NONE | Some s \<Rightarrow> s)
             AND LIBDECOR_WINDOW_STATE_ACTIVE \<noteq> 0"
  shows "\<exists>rest. calls (frame_configure h frm c wld) =
           calls (frame_configure_resized h c wld) @ SetActiveWindow (this (win wld)) # rest"
  using assms
  by (simp add: frame_configure_def frame_configure_resized_def Let_def activate_def
      calls_system_pushEvent)

lemma types_frame_configure_at_call:
  assumes "(case cfg_window_state c of None \<Rightarrow> LIBDECOR_WINDOW_STATE_NONE | Some s \<Rightarrow> s)
             AND LIBDECOR_WINDOW_STATE_ACTIVE \<noteq> 0"
  shows "map ev_type (pushed (calls (frame_configure h frm c wld))) =
           map ev_type (pushed (calls wld)) @
             (if host_setActiveWindow h (this (win wld))
                   (calls (frame_configure_resized h c wld)) = GHOST_kFailure
              then [GHOST_kEventWindowSize]
              else [GHOST_kEventWindowSize, GHOST_kEventWindowActivate])"
  using assms
  by (simp add: frame_configure_def frame_configure_resized_def Let_def types_activate)

lemma last_call_window_800_600:
  "SetDrawingContextType 7 GHOST_kDrawingContextTypeOpenGL \<in> set (calls (window_800_600 h))"
  by (simp add: window_800_600_def GHOST_WindowWayland_new_def Let_def
      wl_display_roundtrip_def setDrawingContextType_def setTitle_def setOpaque_def)

lemma this_window_800_600: "this (win (window_800_600 h)) = 7"
  by (simp add: window_800_600_def GHOST_WindowWayland_new_def Let_def
      wl_display_roundtrip_def setDrawingContextType_def setTitle_def setOpaque_def)

lemma win_setClientSize:
  "win (snd (setClientSize width0 height0 wld)) = win wld"
  "win (snd (setClientWidth width0 wld)) = win wld"
  "win (snd (setClientHeight height0 wld)) = win wld"
  by (simp_all add: setClientSize_def setClientWidth_def setClientHeight_def)

section \<open>Properties\<close>

text \<open>
  C8. For every coordinate pair, \<open>screenToClient\<close> and \<open>clientToScreen\<close> both return
  the pair they were given, so composing them in either order is the identity.
\<close>

theorem coordinate_transforms_identity:
  "screenToClient inX inY = (inX, inY) \<and> clientToScreen inX inY = (inX, inY) \<and>
   (case screenToClient inX inY of (x, y) \<Rightarrow> clientToScreen x y) = (inX, inY) \<and>
   (case clientToScreen inX inY of (x, y) \<Rightarrow> screenToClient x y) = (inX, inY)"
  by (simp add: screenToClient_def clientToScreen_def)

theorem coordinate_transforms_identity_witness:
  "screenToClient (- 5) 7 = (- 5, 7) \<and> clientToScreen (- 5) 7 = (- 5, 7) \<and>
   (case screenToClient (- 5) 7 of (x, y) \<Rightarrow> clientToScreen x y) = (- 5, 7) \<and>
   (case clientToScreen (- 5) 7 of (x, y) \<Rightarrow> screenToClient x y) = (- 5, 7)"
  using coordinate_transforms_identity [of "- 5" 7] by simp

text \<open>
  C6. In every state of the window, \<open>setState\<close> with the embedded state returns failure
  and returns the state it was given: the flags, the geometry and the recorded calls are
  all unchanged, so no command reached the decoration layer.
\<close>

theorem setState_embedded_fails:
  "setState GHOST_kWindowStateEmbedded wld = (GHOST_kFailure, wld) \<and>
   win (snd (setState GHOST_kWindowStateEmbedded wld)) = win wld \<and>
   calls (snd (setState GHOST_kWindowStateEmbedded wld)) = calls wld"
  by simp

theorem setState_embedded_fails_witness:
  "setState GHOST_kWindowStateEmbedded (window_800_600 host_accepting) =
     (GHOST_kFailure, window_800_600 host_accepting)"
  using setState_embedded_fails [of "window_800_600 host_accepting"] by simp

text \<open>
  C4. \<open>getState\<close> returns fullscreen whenever \<open>is_fullscreen\<close> is set, whatever
  \<open>is_maximised\<close> is, maximized when only \<open>is_maximised\<close> is set, and normal when
  neither is; and after a configuration notification whose state has the fullscreen and
  the maximized bit set (with any other bits \<open>s\<close>), \<open>getState\<close> returns fullscreen.
\<close>

theorem getState_fullscreen_first:
  "(is_fullscreen (w win0) \<longrightarrow> getState win0 = GHOST_kWindowStateFullScreen) \<and>
   (\<not> is_fullscreen (w win0) \<and> is_maximised (w win0) \<longrightarrow>
      getState win0 = GHOST_kWindowStateMaximized) \<and>
   (\<not> is_fullscreen (w win0) \<and> \<not> is_maximised (w win0) \<longrightarrow>
      getState win0 = GHOST_kWindowStateNormal) \<and>
   getState (win (frame_configure h frm
      (configuration\<lparr>cfg_window_state :=
         Some (s OR LIBDECOR_WINDOW_STATE_FULLSCREEN OR LIBDECOR_WINDOW_STATE_MAXIMIZED)\<rparr>)
      wld)) = GHOST_kWindowStateFullScreen"
  by (simp add: getState_def flags_frame_configure fullscreen_bit_kept)

theorem getState_fullscreen_first_witness:
  "is_fullscreen (w (win (frame_configure host_accepting 5 cfg_fullscreen_maximized
      (window_800_600 host_accepting)))) \<and>
   is_maximised (w (win (frame_configure host_accepting 5 cfg_fullscreen_maximized
      (window_800_600 host_accepting)))) \<and>
   getState (win (frame_configure host_accepting 5 cfg_fullscreen_maximized
      (window_800_600 host_accepting))) = GHOST_kWindowStateFullScreen"
  using getState_fullscreen_first
    [of "win (frame_configure host_accepting 5 cfg_fullscreen_maximized
           (window_800_600 host_accepting))"]
  by (simp add: flags_frame_configure cfg_fullscreen_maximized_def
      LIBDECOR_WINDOW_STATE_FULLSCREEN_def LIBDECOR_WINDOW_STATE_MAXIMIZED_def)

text \<open>
  C7. Handling a close notification pushes exactly one event, of the close kind, stamped
  with the host's clock and this window, and makes no other call: the window object is
  returned unchanged, and none of the calls the destructor makes (releasing the native
  handles, the frame, the EGL window, the surface and \<open>w\<close>) is among the calls made.
\<close>

theorem frame_close_pushes_one_close_event:
  "win (frame_close h wld) = win wld \<and>
   calls (frame_close h wld) =
     calls wld @ [PushEvent \<lparr>ev_time = host_getMilliSeconds h (calls wld),
                             ev_type = GHOST_kEventWindowClose,
                             ev_window = this (win wld)\<rparr>] \<and>
   pushed (calls (frame_close h wld)) =
     pushed (calls wld) @ [\<lparr>ev_time = host_getMilliSeconds h (calls wld),
                            ev_type = GHOST_kEventWindowClose,
                            ev_window = this (win wld)\<rparr>] \<and>
   set (drop (length (calls wld)) (calls (frame_close h wld))) \<inter>
     set (drop (length (calls wld)) (GHOST_WindowWayland_delete wld)) = {}"
  by (simp add: frame_close_def close_def calls_system_pushEvent
      GHOST_WindowWayland_delete_def)

theorem frame_close_pushes_one_close_event_witness:
  "win (frame_close host_accepting (window_800_600 host_accepting)) =
     win (window_800_600 host_accepting) \<and>
   map ev_type (pushed (calls (frame_close host_accepting (window_800_600 host_accepting)))) =
     map ev_type (pushed (calls (window_800_600 host_accepting))) @ [GHOST_kEventWindowClose]"
  using frame_close_pushes_one_close_event [of host_accepting "window_800_600 host_accepting"]
  by simp

text \<open>
  C10. \<open>activate\<close> first asks the host's window manager to make this window the active
  one. If that fails, \<open>activate\<close> returns failure and pushes no event; otherwise it
  pushes one activation event and returns what the push returned. \<open>deactivate\<close> pushes
  one deactivation event whatever the window manager does.
\<close>

theorem activate_only_when_accepted:
  "(host_setActiveWindow h (this (win wld)) (calls wld) = GHOST_kFailure \<longrightarrow>
      fst (activate h wld) = GHOST_kFailure \<and>
      pushed (calls (snd (activate h wld))) = pushed (calls wld)) \<and>
   (host_setActiveWindow h (this (win wld)) (calls wld) \<noteq> GHOST_kFailure \<longrightarrow>
      pushed (calls (snd (activate h wld))) =
        pushed (calls wld) @
          [\<lparr>ev_time = host_getMilliSeconds h (calls wld @ [SetActiveWindow (this (win wld))]),
            ev_type = GHOST_kEventWindowActivate, ev_window = this (win wld)\<rparr>]) \<and>
   pushed (calls (snd (deactivate h wld))) =
     pushed (calls wld) @
       [\<lparr>ev_time = host_getMilliSeconds h (calls wld @ [SetWindowInactive (this (win wld))]),
         ev_type = GHOST_kEventWindowDeactivate, ev_window = this (win wld)\<rparr>]"
  by (simp add: activate_def deactivate_def Let_def calls_system_pushEvent)

theorem activate_only_when_accepted_witness:
  "fst (activate host_rejecting (window_800_600 host_rejecting)) = GHOST_kFailure \<and>
   map ev_type (pushed (calls (snd (activate host_rejecting (window_800_600 host_rejecting))))) =
     map ev_type (pushed (calls (window_800_600 host_rejecting))) \<and>
   map ev_type (pushed (calls (snd (activate host_accepting (window_800_600 host_accepting))))) =
     map ev_type (pushed (calls (window_800_600 host_accepting))) @ [GHOST_kEventWindowActivate] \<and>
   map ev_type (pushed (calls (snd (deactivate host_rejecting (window_800_600 host_rejecting))))) =
     map ev_type (pushed (calls (window_800_600 host_rejecting))) @ [GHOST_kEventWindowDeactivate]"
  using activate_only_when_accepted [of host_rejecting "window_800_600 host_rejecting"]
    activate_only_when_accepted [of host_accepting "window_800_600 host_accepting"]
  by (simp add: host_rejecting_def host_accepting_def)

text \<open>
  C9. Whatever context type is requested, \<open>newDrawingContext\<close> constructs one context
  \<open>c\<close> and initialises it, and it returns \<open>c\<close> if that initialisation reported success
  and the null result otherwise; so the result is a context exactly when initialisation
  succeeded, and then it is the constructed one.
\<close>

theorem newDrawingContext_result:
  "\<exists>c. calls (snd (newDrawingContext h ty wld)) =
          calls wld @ [New_context c, InitializeDrawingContext c] \<and>
        fst (newDrawingContext h ty wld) =
          (if host_initializeDrawingContext h c (calls wld @ [New_context c]) = GHOST_kSuccess
           then Some c else None) \<and>
        (fst (newDrawingContext h ty wld) = Some c) =
          (host_initializeDrawingContext h c (calls wld @ [New_context c]) = GHOST_kSuccess) \<and>
        (fst (newDrawingContext h ty wld) = None) =
          (host_initializeDrawingContext h c (calls wld @ [New_context c]) \<noteq> GHOST_kSuccess) \<and>
        win (snd (newDrawingContext h ty wld)) = win wld"
  by (simp add: newDrawingContext_def Let_def)

theorem newDrawingContext_result_witness:
  "fst (newDrawingContext host_rejecting GHOST_kDrawingContextTypeOpenGL
          (window_800_600 host_rejecting)) = None \<and>
   fst (newDrawingContext host_accepting GHOST_kDrawingContextTypeNone
          (window_800_600 host_accepting)) \<noteq> None"
proof -
  obtain c where
    "fst (newDrawingContext host_rejecting GHOST_kDrawingContextTypeOpenGL
            (window_800_600 host_rejecting)) =
       (if host_initializeDrawingContext host_rejecting c
             (calls (window_800_600 host_rejecting) @ [New_context c]) = GHOST_kSuccess
        then Some c else None)"
    using newDrawingContext_result [of host_rejecting GHOST_kDrawingContextTypeOpenGL
        "window_800_600 host_rejecting"]
    by blast
  then have rejected:
    "fst (newDrawingContext host_rejecting GHOST_kDrawingContextTypeOpenGL
            (window_800_600 host_rejecting)) = None"
    by (simp add: host_rejecting_def host_accepting_def)
  obtain d where
    "fst (newDrawingContext host_accepting GHOST_kDrawingContextTypeNone
            (window_800_600 host_accepting)) =
       (if host_initializeDrawingContext host_accepting d
             (calls (window_800_600 host_accepting) @ [New_context d]) = GHOST_kSuccess
        then Some d else None)"
    using newDrawingContext_result [of host_accepting GHOST_kDrawingContextTypeNone
        "window_800_600 host_accepting"]
    by blast
  then have accepted:
    "fst (newDrawingContext host_accepting GHOST_kDrawingContextTypeNone
            (window_800_600 host_accepting)) \<noteq> None"
    by (simp add: host_accepting_def)
  from rejected accepted show ?thesis by simp
qed

text \<open>
  C5, as amended. For every window whose maximized flag is set and whose fullscreen flag
  is not set, \<open>setState\<close> with the normal state succeeds and makes exactly one call, the
  maximized-unset on the window's frame; no fullscreen-unset is made and the window
  object is unchanged.
\<close>

theorem setState_normal_unsets_maximized:
  "is_maximised (w (win wld)) \<Longrightarrow> \<not> is_fullscreen (w (win wld)) \<Longrightarrow>
   fst (setState GHOST_kWindowStateNormal wld) = GHOST_kSuccess \<and>
   win (snd (setState GHOST_kWindowStateNormal wld)) = win wld \<and>
   calls (snd (setState GHOST_kWindowStateNormal wld)) =
     calls wld @ [Libdecor_frame_unset_maximized (frame (w (win wld)))]"
  by (simp add: getState_def)

theorem setState_normal_unsets_maximized_witness:
  "calls (snd (setState GHOST_kWindowStateNormal
      (upd_w (\<lambda>x. x\<lparr>is_maximised := True, is_fullscreen := False\<rparr>)
         (window_800_600 host_accepting)))) =
   calls (window_800_600 host_accepting) @
     [Libdecor_frame_unset_maximized (frame (w (win (window_800_600 host_accepting))))]"
  using setState_normal_unsets_maximized
    [of "upd_w (\<lambda>x. x\<lparr>is_maximised := True, is_fullscreen := False\<rparr>)
           (window_800_600 host_accepting)"]
  by simp

text \<open>
  C5 as stated fails on a window whose fullscreen flag is set as well: there the only call
  \<open>setState\<close> makes for the normal state is the fullscreen-unset.
\<close>

theorem setState_normal_counterexample:
  "is_maximised (w (win window_fullscreen_maximized)) \<and>
   drop (length (calls window_fullscreen_maximized))
     (calls (snd (setState GHOST_kWindowStateNormal window_fullscreen_maximized))) =
     [Libdecor_frame_unset_fullscreen (frame (w (win window_fullscreen_maximized)))]"
  by (simp add: window_fullscreen_maximized_def getState_def flags_frame_configure
      cfg_fullscreen_maximized_def LIBDECOR_WINDOW_STATE_FULLSCREEN_def
      LIBDECOR_WINDOW_STATE_MAXIMIZED_def)

text \<open>
  C2, as amended. On every configuration notification, whatever the active flag was
  before, a size event is pushed first, and then: if the ACTIVE bit is set in the state
  the descriptor provides, \<open>setActiveWindow\<close> is asked right after the size event, and
  if the host's window manager accepts the window there, one activation event is
  pushed; if it refuses there, neither an activation nor a deactivation event is
  pushed; if the ACTIVE bit is not set, and so in particular when the descriptor
  provides no state flags, one deactivation event is pushed. The adopted active flag is
  the ACTIVE bit of the descriptor.
\<close>

theorem frame_configure_activation_events:
  "map ev_type (pushed (calls (frame_configure_resized h configuration wld))) =
     map ev_type (pushed (calls wld)) @ [GHOST_kEventWindowSize] \<and>
   is_active (w (win (frame_configure h frm configuration wld))) =
     ((case cfg_window_state configuration of
         None \<Rightarrow> LIBDECOR_WINDOW_STATE_NONE | Some s \<Rightarrow> s)
        AND LIBDECOR_WINDOW_STATE_ACTIVE \<noteq> 0) \<and>
   ((case cfg_window_state configuration of
       None \<Rightarrow> LIBDECOR_WINDOW_STATE_NONE | Some s \<Rightarrow> s)
      AND LIBDECOR_WINDOW_STATE_ACTIVE \<noteq> 0 \<longrightarrow>
      (\<exists>rest. calls (frame_configure h frm configuration wld) =
         calls (frame_configure_resized h configuration wld) @
           SetActiveWindow (this (win wld)) # rest)) \<and>
   ((case cfg_window_state configuration of
       None \<Rightarrow> LIBDECOR_WINDOW_STATE_NONE | Some s \<Rightarrow> s)
      AND LIBDECOR_WINDOW_STATE_ACTIVE \<noteq> 0 \<and>
    host_setActiveWindow h (this (win wld))
      (calls (frame_configure_resized h configuration wld)) \<noteq> GHOST_kFailure \<longrightarrow>
      map ev_type (pushed (calls (frame_configure h frm configuration wld))) =
        map ev_type (pushed (calls wld)) @
          [GHOST_kEventWindowSize, GHOST_kEventWindowActivate]) \<and>
   ((case cfg_window_state configuration of
       None \<Rightarrow> LIBDECOR_WINDOW_STATE_NONE | Some s \<Rightarrow> s)
      AND LIBDECOR_WINDOW_STATE_ACTIVE \<noteq> 0 \<and>
    host_setActiveWindow h (this (win wld))
      (calls (frame_configure_resized h configuration wld)) = GHOST_kFailure \<longrightarrow>
      map ev_type (pushed (calls (frame_configure h frm configuration wld))) =
        map ev_type (pushed (calls wld)) @ [GHOST_kEventWindowSize]) \<and>
   ((case cfg_window_state configuration of
       None \<Rightarrow> LIBDECOR_WINDOW_STATE_NONE | Some s \<Rightarrow> s)
      AND LIBDECOR_WINDOW_STATE_ACTIVE = 0 \<longrightarrow>
      map ev_type (pushed (calls (frame_configure h frm configuration wld))) =
        map ev_type (pushed (calls wld)) @
          [GHOST_kEventWindowSize, GHOST_kEventWindowDeactivate]) \<and>
   (cfg_window_state configuration = None \<longrightarrow>
      map ev_type (pushed (calls (frame_configure h frm configuration wld))) =
        map ev_type (pushed (calls wld)) @
          [GHOST_kEventWindowSize, GHOST_kEventWindowDeactivate])"
proof (intro conjI impI)
  show "map ev_type (pushed (calls (frame_configure_resized h configuration wld))) =
     map ev_type (pushed (calls wld)) @ [GHOST_kEventWindowSize]"
    by (rule types_frame_configure_resized)
next
  show "is_active (w (win (frame_configure h frm configuration wld))) =
     ((case cfg_window_state configuration of
         None \<Rightarrow> LIBDECOR_WINDOW_STATE_NONE | Some s \<Rightarrow> s)
        AND LIBDECOR_WINDOW_STATE_ACTIVE \<noteq> 0)"
    by (rule flags_frame_configure)
next
  assume "(case cfg_window_state configuration of
       None \<Rightarrow> LIBDECOR_WINDOW_STATE_NONE | Some s \<Rightarrow> s)
      AND LIBDECOR_WINDOW_STATE_ACTIVE \<noteq> 0"
  then show "\<exists>rest. calls (frame_configure h frm configuration wld) =
         calls (frame_configure_resized h configuration wld) @
           SetActiveWindow (this (win wld)) # rest"
    by (rule calls_frame_configure_active)
next
  assume "(case cfg_window_state configuration of
       None \<Rightarrow> LIBDECOR_WINDOW_STATE_NONE | Some s \<Rightarrow> s)
      AND LIBDECOR_WINDOW_STATE_ACTIVE \<noteq> 0 \<and>
    host_setActiveWindow h (this (win wld))
      (calls (frame_configure_resized h configuration wld)) \<noteq> GHOST_kFailure"
  then show "map ev_type (pushed (calls (frame_configure h frm configuration wld))) =
        map ev_type (pushed (calls wld)) @
          [GHOST_kEventWindowSize, GHOST_kEventWindowActivate]"
    using types_frame_configure_at_call [of configuration h frm wld] by simp
next
  assume "(case cfg_window_state configuration of
       None \<Rightarrow> LIBDECOR_WINDOW_STATE_NONE | Some s \<Rightarrow> s)
      AND LIBDECOR_WINDOW_STATE_ACTIVE \<noteq> 0 \<and>
    host_setActiveWindow h (this (win wld))
      (calls (frame_configure_resized h configuration wld)) = GHOST_kFailure"
  then show "map ev_type (pushed (calls (frame_configure h frm configuration wld))) =
        map ev_type (pushed (calls wld)) @ [GHOST_kEventWindowSize]"
    using types_frame_configure_at_call [of configuration h frm wld] by simp
next
  assume "(case cfg_window_state configuration of
       None \<Rightarrow> LIBDECOR_WINDOW_STATE_NONE | Some s \<Rightarrow> s)
      AND LIBDECOR_WINDOW_STATE_ACTIVE = 0"
  then show "map ev_type (pushed (calls (frame_configure h frm configuration wld))) =
        map ev_type (pushed (calls wld)) @
          [GHOST_kEventWindowSize, GHOST_kEventWindowDeactivate]"
    by (rule types_frame_configure_inactive)
next
  assume "cfg_window_state configuration = None"
  then show "map ev_type (pushed (calls (frame_configure h frm configuration wld))) =
        map ev_type (pushed (calls wld)) @
          [GHOST_kEventWindowSize, GHOST_kEventWindowDeactivate]"
    using types_frame_configure_inactive [of configuration h frm wld]
    by (simp add: LIBDECOR_WINDOW_STATE_NONE_def)
qed

theorem frame_configure_activation_events_witness:
  "map ev_type (pushed (calls (frame_configure host_registering 5 cfg_active_no_size
      (window_800_600 host_registering)))) =
     map ev_type (pushed (calls (window_800_600 host_registering))) @
       [GHOST_kEventWindowSize, GHOST_kEventWindowActivate] \<and>
   map ev_type (pushed (calls (frame_configure host_rejecting 5 cfg_active_no_size
      (window_800_600 host_rejecting)))) =
     map ev_type (pushed (calls (window_800_600 host_rejecting))) @ [GHOST_kEventWindowSize] \<and>
   map ev_type (pushed (calls (frame_configure host_accepting 5
      \<lparr>cfg_content_size = None, cfg_window_state = None\<rparr> (window_800_600 host_accepting)))) =
     map ev_type (pushed (calls (window_800_600 host_accepting))) @
       [GHOST_kEventWindowSize, GHOST_kEventWindowDeactivate]"
proof -
  have act: "(case cfg_window_state cfg_active_no_size of
               None \<Rightarrow> LIBDECOR_WINDOW_STATE_NONE | Some s \<Rightarrow> s)
             AND LIBDECOR_WINDOW_STATE_ACTIVE \<noteq> 0"
    by (simp add: cfg_active_no_size_def LIBDECOR_WINDOW_STATE_ACTIVE_def)
  obtain rest where
    "calls (frame_configure_resized host_registering cfg_active_no_size
        (window_800_600 host_registering)) = calls (window_800_600 host_registering) @ rest"
    using prefix_frame_configure_resized by blast
  then have known: "host_setActiveWindow host_registering
      (this (win (window_800_600 host_registering)))
      (calls (frame_configure_resized host_registering cfg_active_no_size
         (window_800_600 host_registering))) \<noteq> GHOST_kFailure"
    by (simp add: host_registering_def host_accepting_def this_window_800_600
        last_call_window_800_600)
  have unknown: "host_setActiveWindow host_rejecting
      (this (win (window_800_600 host_rejecting)))
      (calls (frame_configure_resized host_rejecting cfg_active_no_size
         (window_800_600 host_rejecting))) = GHOST_kFailure"
    by (simp add: host_rejecting_def)
  show ?thesis
    using act known unknown
      frame_configure_activation_events
        [of host_registering cfg_active_no_size "window_800_600 host_registering" 5]
      frame_configure_activation_events
        [of host_rejecting cfg_active_no_size "window_800_600 host_rejecting" 5]
      frame_configure_activation_events
        [of host_accepting "\<lparr>cfg_content_size = None, cfg_window_state = None\<rparr>"
          "window_800_600 host_accepting" 5]
    by simp
qed

text \<open>
  C2 as stated fails when the window manager refuses the window: the adopted state is
  active, yet the configuration pushes a size event only, no activation event.
\<close>

theorem frame_configure_activation_counterexample:
  "is_active (w (win (frame_configure host_rejecting 5 cfg_active_no_size
      (window_800_600 host_rejecting)))) \<and>
   map ev_type (pushed (calls (frame_configure host_rejecting 5 cfg_active_no_size
      (window_800_600 host_rejecting)))) =
     map ev_type (pushed (calls (window_800_600 host_rejecting))) @ [GHOST_kEventWindowSize]"
proof -
  have act: "(case cfg_window_state cfg_active_no_size of
               None \<Rightarrow> LIBDECOR_WINDOW_STATE_NONE | Some s \<Rightarrow> s)
             AND LIBDECOR_WINDOW_STATE_ACTIVE \<noteq> 0"
    by (simp add: cfg_active_no_size_def LIBDECOR_WINDOW_STATE_ACTIVE_def)
  have rej: "\<forall>cs. host_setActiveWindow host_rejecting
               (this (win (window_800_600 host_rejecting))) cs = GHOST_kFailure"
    by (simp add: host_rejecting_def)
  from act have "is_active (w (win (frame_configure host_rejecting 5 cfg_active_no_size
      (window_800_600 host_rejecting))))"
    by (simp add: flags_frame_configure)
  moreover have "map ev_type (pushed (calls (frame_configure host_rejecting 5
      cfg_active_no_size (window_800_600 host_rejecting)))) =
     map ev_type (pushed (calls (window_800_600 host_rejecting))) @ [GHOST_kEventWindowSize]"
    using types_frame_configure_active [OF act rej] by simp
  ultimately show ?thesis by simp
qed

text \<open>
  C3, as amended. A configuration notification that provides no content size leaves the stored width
  and height, and so the reported bounds, as they were. In particular a window
  constructed with width 800 and height 600, to which no configuration with a size was
  delivered during the round trips of its construction, reports the bounds
  (0, 0, 800, 600) after a configuration notification without a size, as it does right
  after its construction.
\<close>

theorem frame_configure_without_size_keeps_geometry:
  "(cfg_content_size configuration = None \<longrightarrow>
      width (w (win (frame_configure h frm configuration wld))) = width (w (win wld)) \<and>
      height (w (win (frame_configure h frm configuration wld))) = height (w (win wld)) \<and>
      getClientBounds (win (frame_configure h frm configuration wld)) =
        getClientBounds (win wld)) \<and>
   (cfg_content_size configuration = None \<and> (\<forall>e\<in>set (p1 @ p2 @ p3). \<not> carries_size e) \<longrightarrow>
      getClientBounds (win (dispatch h (Configure configuration)
          (GHOST_WindowWayland_new h self fresh cs p1 p2 p3 title0 left0 top0 800 600 state0
             parentWindow ty is_dialog0 stereoVisual exclusive))) =
        \<lparr>m_l = 0, m_t = 0, m_r = 800, m_b = 600\<rparr> \<and>
      getWindowBounds (win (dispatch h (Configure configuration)
          (GHOST_WindowWayland_new h self fresh cs p1 p2 p3 title0 left0 top0 800 600 state0
             parentWindow ty is_dialog0 stereoVisual exclusive))) =
        \<lparr>m_l = 0, m_t = 0, m_r = 800, m_b = 600\<rparr> \<and>
      getClientBounds (win
          (GHOST_WindowWayland_new h self fresh cs p1 p2 p3 title0 left0 top0 800 600 state0
             parentWindow ty is_dialog0 stereoVisual exclusive)) =
        \<lparr>m_l = 0, m_t = 0, m_r = 800, m_b = 600\<rparr>)"
  by (simp add: getClientBounds_def getWindowBounds_def size_frame_configure
      size_GHOST_WindowWayland_new)

theorem frame_configure_without_size_keeps_geometry_witness:
  "getClientBounds (win (frame_configure host_accepting 5 cfg_active_no_size
      (window_800_600 host_accepting))) = getClientBounds (win (window_800_600 host_accepting)) \<and>
   getClientBounds (win (dispatch host_accepting (Configure cfg_active_no_size)
      (GHOST_WindowWayland_new host_accepting 7 fresh_window_t []
         [Configure cfg_active_no_size] [] [Commit]
         ''Blender'' 0 0 800 600 GHOST_kWindowStateNormal None
         GHOST_kDrawingContextTypeOpenGL False False False))) =
     \<lparr>m_l = 0, m_t = 0, m_r = 800, m_b = 600\<rparr>"
  using frame_configure_without_size_keeps_geometry
    [where configuration = cfg_active_no_size and h = host_accepting and frm = 5
       and wld = "window_800_600 host_accepting" and self = 7 and fresh = fresh_window_t
       and cs = "[]" and ?p1.0 = "[Configure cfg_active_no_size]" and ?p2.0 = "[]"
       and ?p3.0 = "[Commit]" and ?title0.0 = "''Blender''" and ?left0.0 = 0
       and ?top0.0 = 0 and ?state0.0 = GHOST_kWindowStateNormal and parentWindow = None
       and ty = GHOST_kDrawingContextTypeOpenGL and ?is_dialog0.0 = False
       and stereoVisual = False and exclusive = False]
  by (simp add: cfg_active_no_size_def)

text \<open>
  C3 as stated fails when a configuration with a size is delivered during the round
  trips of the construction: the window asked for with 800 by 600 then holds that size,
  and a later configuration without a size keeps it, so the bounds are
  (0, 0, 1920, 1080).
\<close>

theorem frame_configure_without_size_counterexample:
  "cfg_content_size cfg_active_no_size = None \<and>
   getClientBounds (win (dispatch host_accepting (Configure cfg_active_no_size)
      (GHOST_WindowWayland_new host_accepting 7 fresh_window_t []
         [Configure cfg_fullscreen_maximized] [] []
         ''Blender'' 0 0 800 600 GHOST_kWindowStateNormal None
         GHOST_kDrawingContextTypeOpenGL False False False))) =
     \<lparr>m_l = 0, m_t = 0, m_r = 1920, m_b = 1080\<rparr>"
  by (simp add: getClientBounds_def size_frame_configure cfg_active_no_size_def
      cfg_fullscreen_maximized_def GHOST_WindowWayland_new_def Let_def
      wl_display_roundtrip_def host_accepting_def)

text \<open>
  C1, on the code. An explicit resize is accepted (\<open>setClientSize\<close> returns success and
  resizes the native window to 1024 by 768), yet the bounds reported afterwards are
  still those of the construction, (0, 0, 800, 600); and \<open>setClientWidth\<close>, which passes
  the stored height on as the current one, then resizes the native window to 500 by 600
  rather than 500 by 768.
\<close>

theorem setClientSize_leaves_bounds_stale:
  "fst (setClientSize 1024 768 (window_800_600 host_accepting)) = GHOST_kSuccess \<and>
   calls (snd (setClientSize 1024 768 (window_800_600 host_accepting))) =
     calls (window_800_600 host_accepting) @
       [Wl_egl_window_resize (egl_window (w (win (window_800_600 host_accepting))))
          1024 768 0 0] \<and>
   getClientBounds (win (snd (setClientSize 1024 768 (window_800_600 host_accepting)))) =
     \<lparr>m_l = 0, m_t = 0, m_r = 800, m_b = 600\<rparr> \<and>
   getWindowBounds (win (snd (setClientSize 1024 768 (window_800_600 host_accepting)))) =
     \<lparr>m_l = 0, m_t = 0, m_r = 800, m_b = 600\<rparr> \<and>
   calls (snd (setClientWidth 500
       (snd (setClientSize 1024 768 (window_800_600 host_accepting))))) =
     calls (window_800_600 host_accepting) @
       [Wl_egl_window_resize (egl_window (w (win (window_800_600 host_accepting))))
          1024 768 0 0,
        Wl_egl_window_resize (egl_window (w (win (window_800_600 host_accepting))))
          500 600 0 0]"
  by (simp add: setClientSize_def setClientWidth_def getClientBounds_def getWindowBounds_def
      window_800_600_def size_GHOST_WindowWayland_new)

end
